theory Spec2Isabelle
  imports Main
begin

section \<open>The enumerations declared by the Switch scripting type declarations\<close>

text \<open>
  The repository holds two ambient declaration files, \<^verbatim>\<open>src/index.d.ts\<close> and
  \<^verbatim>\<open>src/unnamed/part_000\<close>. Neither contains a function body: the classes are
  signatures of objects that the Switch application implements. What the files do fix are
  the enumerations, each a list of members with a literal value. An enumeration is kept
  here as the list of its members in declaration order, a declaration file as the list of
  its enumerations in declaration order, an enumeration inside a namespace under its
  qualified name.
\<close>

datatype literal = StrLit string | NumLit int

type_synonym enum_decl = "(string \<times> literal) list"

type_synonym decl_file = "(string \<times> enum_decl) list"

subsection \<open>\<^verbatim>\<open>src/index.d.ts\<close>\<close>

definition index_PropertyType :: enum_decl where
  "index_PropertyType =
    [(''Literal'', StrLit ''literal''),
     (''Number'', StrLit ''number''),
     (''Date'', StrLit ''date''),
     (''HoursAndMinutes'', StrLit ''hoursandminutes''),
     (''Boolean'', StrLit ''boolean''),
     (''String'', StrLit ''string''),
     (''FilePath'', StrLit ''filepath''),
     (''FolderPath'', StrLit ''folderpath''),
     (''FileType'', StrLit ''filetype''),
     (''FolderPattern'', StrLit ''folderpattern''),
     (''Regex'', StrLit ''regex''),
     (''OAuthToken'', StrLit ''oauthtoken'')]"

definition index_LogLevel :: enum_decl where
  "index_LogLevel =
    [(''Info'', StrLit ''info''),
     (''Warning'', StrLit ''warning''),
     (''Error'', StrLit ''error'')]"

definition index_DatasetModel :: enum_decl where
  "index_DatasetModel =
    [(''Opaque'', StrLit ''Opaque''),
     (''XML'', StrLit ''XML''),
     (''XMP'', StrLit ''XMP''),
     (''JDF'', StrLit ''JDF'')]"

definition index_AccessLevel :: enum_decl where
  "index_AccessLevel =
    [(''ReadOnly'', StrLit ''readOnly''),
     (''ReadWrite'', StrLit ''readWrite'')]"

definition index_Scope :: enum_decl where
  "index_Scope =
    [(''FlowElement'', StrLit ''flowElement''),
     (''Element'', StrLit ''element''),
     (''Global'', StrLit ''global'')]"

definition index_Connection_Level :: enum_decl where
  "index_Connection_Level =
    [(''Success'', StrLit ''success''),
     (''Warning'', StrLit ''warning''),
     (''Error'', StrLit ''error'')]"

definition index_d_ts :: decl_file where
  "index_d_ts =
    [(''PropertyType'', index_PropertyType),
     (''LogLevel'', index_LogLevel),
     (''DatasetModel'', index_DatasetModel),
     (''AccessLevel'', index_AccessLevel),
     (''Scope'', index_Scope),
     (''Connection.Level'', index_Connection_Level)]"

subsection \<open>\<^verbatim>\<open>src/unnamed/part_000\<close>\<close>

definition part_PropertyType :: enum_decl where
  "part_PropertyType =
    [(''Literal'', StrLit ''literal''),
     (''Number'', StrLit ''number''),
     (''Date'', StrLit ''date''),
     (''HoursAndMinutes'', StrLit ''hoursandminutes''),
     (''Boolean'', StrLit ''boolean''),
     (''String'', StrLit ''string''),
     (''FilePath'', StrLit ''filepath''),
     (''FolderPath'', StrLit ''folderpath''),
     (''FileType'', StrLit ''filetype''),
     (''FolderPattern'', StrLit ''folderpattern''),
     (''Regex'', StrLit ''regex''),
     (''OAuthToken'', StrLit ''oauthtoken'')]"

definition part_LogLevel :: enum_decl where
  "part_LogLevel =
    [(''Info'', StrLit ''info''),
     (''Warning'', StrLit ''warning''),
     (''Error'', StrLit ''error''),
     (''Debug'', StrLit ''debug'')]"

definition part_DatasetModel :: enum_decl where
  "part_DatasetModel =
    [(''Opaque'', StrLit ''Opaque''),
     (''XML'', StrLit ''XML''),
     (''XMP'', StrLit ''XMP''),
     (''JDF'', StrLit ''JDF''),
     (''JSON'', StrLit ''JSON'')]"

definition part_AccessLevel :: enum_decl where
  "part_AccessLevel =
    [(''ReadOnly'', StrLit ''readOnly''),
     (''ReadWrite'', StrLit ''readWrite'')]"

definition part_Priority :: enum_decl where
  "part_Priority =
    [(''Low'', NumLit (- 100000)),
     (''BelowNormal'', NumLit (- 10000)),
     (''Normal'', NumLit 0),
     (''AboveNormal'', NumLit 10000),
     (''High'', NumLit 100000)]"

definition part_Scope :: enum_decl where
  "part_Scope =
    [(''Element'', StrLit ''element''),
     (''Flow'', StrLit ''flow''),
     (''FlowElement'', StrLit ''flowElement''),
     (''FlowElements'', StrLit ''flowElements''),
     (''Global'', StrLit ''global'')]"

definition part_EnfocusSwitchPrivateDataTag :: enum_decl where
  "part_EnfocusSwitchPrivateDataTag =
    [(''hierarchy'', StrLit ''EnfocusSwitch.hierarchy''),
     (''emailAddresses'', StrLit ''EnfocusSwitch.emailAddresses''),
     (''emailBody'', StrLit ''EnfocusSwitch.emailBody''),
     (''userName'', StrLit ''EnfocusSwitch.userName''),
     (''userFullName'', StrLit ''EnfocusSwitch.userFullName''),
     (''userEmail'', StrLit ''EnfocusSwitch.userEmail''),
     (''origin'', StrLit ''EnfocusSwitch.origin''),
     (''initiated'', StrLit ''EnfocusSwitch.initiated''),
     (''submittedTo'', StrLit ''EnfocusSwitch.submittedTo''),
     (''state'', StrLit ''EnfocusSwitch.state'')]"

definition part_Connection_Level :: enum_decl where
  "part_Connection_Level =
    [(''Success'', StrLit ''success''),
     (''Warning'', StrLit ''warning''),
     (''Error'', StrLit ''error'')]"

definition part_HttpRequest_Method :: enum_decl where
  "part_HttpRequest_Method =
    [(''POST'', StrLit ''POST''),
     (''PUT'', StrLit ''PUT''),
     (''DELETE'', StrLit ''DELETE'')]"

definition part_ImageDocument_ColorSpace :: enum_decl where
  "part_ImageDocument_ColorSpace =
    [(''SRGB'', StrLit ''sRGB''),
     (''Uncalibrated'', StrLit ''uncalibrated'')]"

definition part_ImageDocument_ColorMode :: enum_decl where
  "part_ImageDocument_ColorMode =
    [(''Bitmap'', StrLit ''Bitmap''),
     (''Gray'', StrLit ''Gray''),
     (''IndexedColor'', StrLit ''Indexed color''),
     (''RGB'', StrLit ''RGB''),
     (''CMYK'', StrLit ''CMYK''),
     (''Multichannel'', StrLit ''Multichannel''),
     (''Duotone'', StrLit ''Duotone''),
     (''LabColor'', StrLit ''Lab color''),
     (''Unknown'', StrLit ''Unknown'')]"

definition part_000 :: decl_file where
  "part_000 =
    [(''PropertyType'', part_PropertyType),
     (''LogLevel'', part_LogLevel),
     (''DatasetModel'', part_DatasetModel),
     (''AccessLevel'', part_AccessLevel),
     (''Priority'', part_Priority),
     (''Scope'', part_Scope),
     (''EnfocusSwitchPrivateDataTag'', part_EnfocusSwitchPrivateDataTag),
     (''Connection.Level'', part_Connection_Level),
     (''HttpRequest.Method'', part_HttpRequest_Method),
     (''ImageDocument.ColorSpace'', part_ImageDocument_ColorSpace),
     (''ImageDocument.ColorMode'', part_ImageDocument_ColorMode)]"

subsection \<open>Reading a declaration file\<close>

definition source_files :: "decl_file list" where
  "source_files = [index_d_ts, part_000]"

text \<open>The enumeration a file declares under a name, if it declares one.\<close>

definition enum_of :: "decl_file \<Rightarrow> string \<Rightarrow> enum_decl option" where
  "enum_of f n = map_of f n"

text \<open>\<^verbatim>\<open>E.M\<close>: the literal of member \<open>M\<close> of an enumeration.\<close>

definition member_value :: "enum_decl \<Rightarrow> string \<Rightarrow> literal option" where
  "member_value e m = map_of e m"

definition member_names :: "enum_decl \<Rightarrow> string list" where
  "member_names e = map fst e"

definition member_values :: "enum_decl \<Rightarrow> literal list" where
  "member_values e = map snd e"

definition enum_names :: "decl_file \<Rightarrow> string list" where
  "enum_names f = map fst f"

text \<open>The names of the enumerations that both of two files declare, in the order of the first.\<close>

definition common_enums :: "decl_file \<Rightarrow> decl_file \<Rightarrow> string list" where
  "common_enums f g = filter (\<lambda>n. n \<in> set (enum_names g)) (enum_names f)"

text \<open>
  Two files agree on an enumeration when both declare it and declare the same members with
  the same literals, whatever the order of the members.
\<close>

definition enums_agree :: "decl_file \<Rightarrow> decl_file \<Rightarrow> string \<Rightarrow> bool" where
  "enums_agree f g n =
    (case enum_of f n of
       None \<Rightarrow> False
     | Some a \<Rightarrow> (case enum_of g n of None \<Rightarrow> False | Some b \<Rightarrow> set a = set b))"

text \<open>
  The second file extends the enumeration of the first by the members \<open>extra\<close>: both declare
  it, the second has all members of the first with the same literals, and \<open>extra\<close> are the
  members only the second has.
\<close>

definition enum_extends ::
  "decl_file \<Rightarrow> decl_file \<Rightarrow> string \<Rightarrow> (string \<times> literal) list \<Rightarrow> bool" where
  "enum_extends f g n extra =
    (case enum_of f n of
       None \<Rightarrow> False
     | Some a \<Rightarrow>
        (case enum_of g n of
           None \<Rightarrow> False
         | Some b \<Rightarrow> set b = set a \<union> set extra \<and> set a \<inter> set extra = {}))"



section \<open>Lookups in the two files\<close>

lemmas index_enum_defs =
  index_PropertyType_def index_LogLevel_def index_DatasetModel_def index_AccessLevel_def
  index_Scope_def index_Connection_Level_def

lemmas part_enum_defs =
  part_PropertyType_def part_LogLevel_def part_DatasetModel_def part_AccessLevel_def
  part_Priority_def part_Scope_def part_EnfocusSwitchPrivateDataTag_def
  part_Connection_Level_def part_HttpRequest_Method_def part_ImageDocument_ColorSpace_def
  part_ImageDocument_ColorMode_def

lemma index_enum_names:
  "enum_names index_d_ts =
    [''PropertyType'', ''LogLevel'', ''DatasetModel'', ''AccessLevel'', ''Scope'',
     ''Connection.Level'']"
  by (simp add: enum_names_def index_d_ts_def)

lemma part_enum_names:
  "enum_names part_000 =
    [''PropertyType'', ''LogLevel'', ''DatasetModel'', ''AccessLevel'', ''Priority'', ''Scope'',
     ''EnfocusSwitchPrivateDataTag'', ''Connection.Level'', ''HttpRequest.Method'',
     ''ImageDocument.ColorSpace'', ''ImageDocument.ColorMode'']"
  by (simp add: enum_names_def part_000_def)

lemma index_AccessLevel_declared: "enum_of index_d_ts ''AccessLevel'' = Some index_AccessLevel"
  by (simp add: enum_of_def index_d_ts_def)

lemma part_AccessLevel_declared: "enum_of part_000 ''AccessLevel'' = Some part_AccessLevel"
  by (simp add: enum_of_def part_000_def)



text \<open>
  Within an enumeration no member name is declared twice, and within a file no enumeration
  name, so a lookup by name finds the one declaration there is.
\<close>

lemma index_member_names_distinct:
  "distinct (enum_names index_d_ts) \<and> list_all (\<lambda>(n, e). distinct (member_names e)) index_d_ts"
  by (simp add: enum_names_def index_d_ts_def member_names_def index_enum_defs)

lemma part_member_names_distinct:
  "distinct (enum_names part_000) \<and> list_all (\<lambda>(n, e). distinct (member_names e)) part_000"
  by (simp add: enum_names_def part_000_def member_names_def part_enum_defs)

section \<open>The enum literal values of the repository\<close>










section \<open>The members of DatasetModel\<close>

lemma index_DatasetModel_declared:
  "enum_of index_d_ts ''DatasetModel'' = Some index_DatasetModel"
  by (simp add: enum_of_def index_d_ts_def)

lemma part_DatasetModel_declared:
  "enum_of part_000 ''DatasetModel'' = Some part_DatasetModel"
  by (simp add: enum_of_def part_000_def)

text \<open>
  C5, as stated, fails: \<^verbatim>\<open>src/unnamed/part_000\<close> is a source file that declares
  \<open>DatasetModel\<close>, and there the enumeration has a fifth member, \<open>JSON = "JSON"\<close>, which is
  none of Opaque, XML, XMP and JDF.
\<close>

theorem DatasetModel_four_members_counterexample:
  "part_000 \<in> set source_files \<and>
   enum_of part_000 ''DatasetModel'' = Some part_DatasetModel \<and>
   member_value part_DatasetModel ''JSON'' = Some (StrLit ''JSON'') \<and>
   ''JSON'' \<notin> {''Opaque'', ''XML'', ''XMP'', ''JDF''} \<and>
   set (member_names part_DatasetModel) \<noteq> {''Opaque'', ''XML'', ''XMP'', ''JDF''}"
proof -
  have json: "''JSON'' \<in> set (member_names part_DatasetModel)"
    by (simp add: member_names_def part_DatasetModel_def)
  have other: "''JSON'' \<notin> {''Opaque'', ''XML'', ''XMP'', ''JDF''}"
    by simp
  have "set (member_names part_DatasetModel) \<noteq> {''Opaque'', ''XML'', ''XMP'', ''JDF''}"
  proof
    assume "set (member_names part_DatasetModel) = {''Opaque'', ''XML'', ''XMP'', ''JDF''}"
    with json have "''JSON'' \<in> {''Opaque'', ''XML'', ''XMP'', ''JDF''}"
      by (rule subst [rotated])
    with other show False
      by (rule notE)
  qed
  moreover have "member_value part_DatasetModel ''JSON'' = Some (StrLit ''JSON'')"
    by (simp add: member_value_def part_DatasetModel_def)
  moreover have "part_000 \<in> set source_files"
    by (simp add: source_files_def)
  ultimately show ?thesis
    using other part_DatasetModel_declared by (intro conjI)
qed

text \<open>
  C5, amended. Every source file that declares \<open>DatasetModel\<close> gives it the members Opaque,
  XML, XMP and JDF and no member other than these four and JSON. In
  \<^verbatim>\<open>src/index.d.ts\<close> the members are exactly Opaque, XML, XMP and JDF; in
  \<^verbatim>\<open>src/unnamed/part_000\<close> they are exactly Opaque, XML, XMP, JDF and JSON.
\<close>

theorem DatasetModel_members:
  "(\<forall>f \<in> set source_files. \<forall>e. enum_of f ''DatasetModel'' = Some e \<longrightarrow>
      {''Opaque'', ''XML'', ''XMP'', ''JDF''} \<subseteq> set (member_names e) \<and>
      set (member_names e) \<subseteq> {''Opaque'', ''XML'', ''XMP'', ''JDF'', ''JSON''}) \<and>
   map_option member_names (enum_of index_d_ts ''DatasetModel'') =
     Some [''Opaque'', ''XML'', ''XMP'', ''JDF''] \<and>
   map_option member_names (enum_of part_000 ''DatasetModel'') =
     Some [''Opaque'', ''XML'', ''XMP'', ''JDF'', ''JSON'']"
  by (simp add: source_files_def index_DatasetModel_declared part_DatasetModel_declared
      member_names_def index_DatasetModel_def part_DatasetModel_def)

theorem DatasetModel_members_witness:
  "index_d_ts \<in> set source_files \<and>
   enum_of index_d_ts ''DatasetModel'' = Some index_DatasetModel \<and>
   {''Opaque'', ''XML'', ''XMP'', ''JDF''} \<subseteq> set (member_names index_DatasetModel) \<and>
   set (member_names index_DatasetModel) \<subseteq> {''Opaque'', ''XML'', ''XMP'', ''JDF'', ''JSON''}"
proof -
  have f: "index_d_ts \<in> set source_files"
    by (simp add: source_files_def)
  note every = DatasetModel_members [THEN conjunct1]
  note here = every [THEN bspec, OF f, THEN spec, THEN mp, OF index_DatasetModel_declared]
  from f index_DatasetModel_declared here [THEN conjunct1] here [THEN conjunct2]
  show ?thesis
    by (intro conjI)
qed

section \<open>The members of Scope\<close>

lemma index_Scope_declared: "enum_of index_d_ts ''Scope'' = Some index_Scope"
  by (simp add: enum_of_def index_d_ts_def)

lemma part_Scope_declared: "enum_of part_000 ''Scope'' = Some part_Scope"
  by (simp add: enum_of_def part_000_def)

text \<open>
  C6, as stated, fails in both files. \<^verbatim>\<open>src/unnamed/part_000\<close> declares the member
  \<open>FlowElements = "flowElements"\<close>, whose name and whose value are none of those of the
  element, flow and global scopes; and \<^verbatim>\<open>src/index.d.ts\<close> has no member \<open>Flow\<close>
  and no member whose value is \<open>flow\<close>.
\<close>

theorem Scope_three_scopes_counterexample:
  "part_000 \<in> set source_files \<and>
   enum_of part_000 ''Scope'' = Some part_Scope \<and>
   member_value part_Scope ''FlowElements'' = Some (StrLit ''flowElements'') \<and>
   ''FlowElements'' \<notin> {''Element'', ''Flow'', ''Global''} \<and>
   StrLit ''flowElements'' \<notin> {StrLit ''element'', StrLit ''flow'', StrLit ''global''} \<and>
   index_d_ts \<in> set source_files \<and>
   enum_of index_d_ts ''Scope'' = Some index_Scope \<and>
   member_value index_Scope ''Flow'' = None \<and>
   StrLit ''flow'' \<notin> set (member_values index_Scope)"
proof -
  have "member_value part_Scope ''FlowElements'' = Some (StrLit ''flowElements'')"
    by (simp add: member_value_def part_Scope_def)
  moreover have "''FlowElements'' \<notin> {''Element'', ''Flow'', ''Global''}"
    by simp
  moreover have
    "StrLit ''flowElements'' \<notin> {StrLit ''element'', StrLit ''flow'', StrLit ''global''}"
    by simp
  moreover have "member_value index_Scope ''Flow'' = None"
    by (simp add: member_value_def index_Scope_def)
  moreover have "StrLit ''flow'' \<notin> set (member_values index_Scope)"
    by (simp add: member_values_def index_Scope_def)
  moreover have "part_000 \<in> set source_files" "index_d_ts \<in> set source_files"
    by (simp_all add: source_files_def)
  ultimately show ?thesis
    using part_Scope_declared index_Scope_declared by (intro conjI)
qed

text \<open>
  C6, amended. Every source file that declares \<open>Scope\<close> gives it the members
  \<open>Element = "element"\<close>, \<open>FlowElement = "flowElement"\<close> and \<open>Global = "global"\<close>.
  \<^verbatim>\<open>src/index.d.ts\<close> declares exactly these three; \<^verbatim>\<open>src/unnamed/part_000\<close>
  declares exactly these three and \<open>Flow = "flow"\<close> and \<open>FlowElements = "flowElements"\<close>.
\<close>

theorem Scope_members:
  "(\<forall>f \<in> set source_files. \<forall>e. enum_of f ''Scope'' = Some e \<longrightarrow>
      member_value e ''Element'' = Some (StrLit ''element'') \<and>
      member_value e ''FlowElement'' = Some (StrLit ''flowElement'') \<and>
      member_value e ''Global'' = Some (StrLit ''global'')) \<and>
   map_option member_names (enum_of index_d_ts ''Scope'') =
     Some [''FlowElement'', ''Element'', ''Global''] \<and>
   map_option member_names (enum_of part_000 ''Scope'') =
     Some [''Element'', ''Flow'', ''FlowElement'', ''FlowElements'', ''Global''] \<and>
   map_option (\<lambda>e. member_value e ''Flow'') (enum_of part_000 ''Scope'') =
     Some (Some (StrLit ''flow'')) \<and>
   map_option (\<lambda>e. member_value e ''FlowElements'') (enum_of part_000 ''Scope'') =
     Some (Some (StrLit ''flowElements''))"
  by (simp add: source_files_def index_Scope_declared part_Scope_declared
      member_names_def member_value_def index_Scope_def part_Scope_def)

theorem Scope_members_witness:
  "index_d_ts \<in> set source_files \<and>
   enum_of index_d_ts ''Scope'' = Some index_Scope \<and>
   member_value index_Scope ''Element'' = Some (StrLit ''element'') \<and>
   member_value index_Scope ''FlowElement'' = Some (StrLit ''flowElement'') \<and>
   member_value index_Scope ''Global'' = Some (StrLit ''global'')"
proof -
  have f: "index_d_ts \<in> set source_files"
    by (simp add: source_files_def)
  note every = Scope_members [THEN conjunct1]
  note here = every [THEN bspec, OF f, THEN spec, THEN mp, OF index_Scope_declared]
  from f index_Scope_declared here [THEN conjunct1] here [THEN conjunct2, THEN conjunct1]
    here [THEN conjunct2, THEN conjunct2]
  show ?thesis
    by (intro conjI)
qed

section \<open>The enumerations that both files declare\<close>

lemma index_LogLevel_declared: "enum_of index_d_ts ''LogLevel'' = Some index_LogLevel"
  by (simp add: enum_of_def index_d_ts_def)

lemma part_LogLevel_declared: "enum_of part_000 ''LogLevel'' = Some part_LogLevel"
  by (simp add: enum_of_def part_000_def)

lemma index_PropertyType_declared:
  "enum_of index_d_ts ''PropertyType'' = Some index_PropertyType"
  by (simp add: enum_of_def index_d_ts_def)

lemma part_PropertyType_declared:
  "enum_of part_000 ''PropertyType'' = Some part_PropertyType"
  by (simp add: enum_of_def part_000_def)

lemma index_Connection_Level_declared:
  "enum_of index_d_ts ''Connection.Level'' = Some index_Connection_Level"
  by (simp add: enum_of_def index_d_ts_def)

lemma part_Connection_Level_declared:
  "enum_of part_000 ''Connection.Level'' = Some part_Connection_Level"
  by (simp add: enum_of_def part_000_def)

lemma common_enums_index_part:
  "common_enums index_d_ts part_000 =
    [''PropertyType'', ''LogLevel'', ''DatasetModel'', ''AccessLevel'', ''Scope'',
     ''Connection.Level'']"
  by (simp add: common_enums_def index_enum_names part_enum_names)

lemma PropertyType_agree: "enums_agree index_d_ts part_000 ''PropertyType''"
  by (simp add: enums_agree_def index_PropertyType_declared part_PropertyType_declared
      index_PropertyType_def part_PropertyType_def)

lemma AccessLevel_agree: "enums_agree index_d_ts part_000 ''AccessLevel''"
  by (simp add: enums_agree_def index_AccessLevel_declared part_AccessLevel_declared
      index_AccessLevel_def part_AccessLevel_def)

lemma Connection_Level_agree: "enums_agree index_d_ts part_000 ''Connection.Level''"
  by (simp add: enums_agree_def index_Connection_Level_declared
      part_Connection_Level_declared index_Connection_Level_def part_Connection_Level_def)

lemma LogLevel_extended:
  "enum_extends index_d_ts part_000 ''LogLevel'' [(''Debug'', StrLit ''debug'')]"
  by (simp add: enum_extends_def index_LogLevel_declared part_LogLevel_declared
      index_LogLevel_def part_LogLevel_def insert_commute)

lemma DatasetModel_extended:
  "enum_extends index_d_ts part_000 ''DatasetModel'' [(''JSON'', StrLit ''JSON'')]"
  by (simp add: enum_extends_def index_DatasetModel_declared part_DatasetModel_declared
      index_DatasetModel_def part_DatasetModel_def insert_commute)

lemma Scope_extended:
  "enum_extends index_d_ts part_000 ''Scope''
     [(''Flow'', StrLit ''flow''), (''FlowElements'', StrLit ''flowElements'')]"
  by (simp add: enum_extends_def index_Scope_declared part_Scope_declared
      index_Scope_def part_Scope_def insert_commute)

text \<open>
  C8, as stated, fails: \<open>LogLevel\<close> is declared in both files, and
  \<^verbatim>\<open>src/unnamed/part_000\<close> gives it the member \<open>Debug = "debug"\<close>, which
  \<^verbatim>\<open>src/index.d.ts\<close> does not have.
\<close>

theorem enums_agree_counterexample:
  "''LogLevel'' \<in> set (common_enums index_d_ts part_000) \<and>
   enum_of index_d_ts ''LogLevel'' = Some index_LogLevel \<and>
   enum_of part_000 ''LogLevel'' = Some part_LogLevel \<and>
   member_value part_LogLevel ''Debug'' = Some (StrLit ''debug'') \<and>
   member_value index_LogLevel ''Debug'' = None \<and>
   \<not> enums_agree index_d_ts part_000 ''LogLevel''"
proof -
  have "''LogLevel'' \<in> set (common_enums index_d_ts part_000)"
    by (simp add: common_enums_index_part)
  moreover have "member_value part_LogLevel ''Debug'' = Some (StrLit ''debug'')"
    by (simp add: member_value_def part_LogLevel_def)
  moreover have "member_value index_LogLevel ''Debug'' = None"
    by (simp add: member_value_def index_LogLevel_def)
  moreover have "\<not> enums_agree index_d_ts part_000 ''LogLevel''"
  proof
    assume "enums_agree index_d_ts part_000 ''LogLevel''"
    then have same: "set index_LogLevel = set part_LogLevel"
      by (simp add: enums_agree_def index_LogLevel_declared part_LogLevel_declared)
    have "(''Debug'', StrLit ''debug'') \<in> set part_LogLevel"
      by (simp add: part_LogLevel_def)
    with same have "(''Debug'', StrLit ''debug'') \<in> set index_LogLevel"
      by simp
    then show False
      by (simp add: index_LogLevel_def)
  qed
  ultimately show ?thesis
    using index_LogLevel_declared part_LogLevel_declared by (intro conjI)
qed

text \<open>
  C8, amended. The enumerations declared in both files are \<open>PropertyType\<close>, \<open>LogLevel\<close>,
  \<open>DatasetModel\<close>, \<open>AccessLevel\<close>, \<open>Scope\<close> and \<open>Connection.Level\<close>. On \<open>PropertyType\<close>,
  \<open>AccessLevel\<close> and \<open>Connection.Level\<close> the two files declare the same members with the
  same literal values. On the other three, every member of \<^verbatim>\<open>src/index.d.ts\<close> is a
  member of \<^verbatim>\<open>src/unnamed/part_000\<close> with the same literal value, and
  \<^verbatim>\<open>src/unnamed/part_000\<close> adds \<open>Debug = "debug"\<close> to \<open>LogLevel\<close>,
  \<open>JSON = "JSON"\<close> to \<open>DatasetModel\<close>, and \<open>Flow = "flow"\<close> and
  \<open>FlowElements = "flowElements"\<close> to \<open>Scope\<close>.
\<close>

theorem common_enums_compared:
  "common_enums index_d_ts part_000 =
     [''PropertyType'', ''LogLevel'', ''DatasetModel'', ''AccessLevel'', ''Scope'',
      ''Connection.Level''] \<and>
   enums_agree index_d_ts part_000 ''PropertyType'' \<and>
   enums_agree index_d_ts part_000 ''AccessLevel'' \<and>
   enums_agree index_d_ts part_000 ''Connection.Level'' \<and>
   enum_extends index_d_ts part_000 ''LogLevel'' [(''Debug'', StrLit ''debug'')] \<and>
   enum_extends index_d_ts part_000 ''DatasetModel'' [(''JSON'', StrLit ''JSON'')] \<and>
   enum_extends index_d_ts part_000 ''Scope''
     [(''Flow'', StrLit ''flow''), (''FlowElements'', StrLit ''flowElements'')]"
  using common_enums_index_part PropertyType_agree AccessLevel_agree Connection_Level_agree
    LogLevel_extended DatasetModel_extended Scope_extended
  by (intro conjI)

end
